theory Spec2Isabelle
  imports Main "HOL-Library.Finite_Map" "HOL-Library.Stream"
begin

section \<open>Data model\<close>

text \<open>
  The data service keeps every collection in one JSON file under the data directory and
  handles the parsed content as plain JavaScript values. A value is one of the six JSON
  shapes or one of the three numbers JSON cannot write: \<open>NaN\<close>, \<open>Infinity\<close> and
  \<open>-Infinity\<close>. These never come out of a file, but a caller can pass them wherever the
  record types say \<open>number\<close> or \<open>any\<close>. An object is a finite map from property
  names to values (the order of its keys is not observable by any operation below, so it
  is not modelled). Finite numbers are kept as integers: the only number the service
  itself produces is the literal \<open>0\<close>. A property whose value is \<open>undefined\<close> reads
  like an absent property and is dropped by \<open>JSON.stringify\<close>; it is modelled as absent.
  Other values of type \<open>any\<close> (dates, functions, big integers) are not modelled.
\<close>

datatype json =
    JNull
  | JBool bool
  | JNum int
  | JNaN
  | JInfinity
  | JNegInfinity
  | JStr string
  | JArr "json list"
  | JObj "(string, json) fmap"

type_synonym obj = "(string, json) fmap"

text \<open>
  The failures of the service. \<open>readDataFile\<close> and \<open>writeDataFile\<close> catch every
  exception of the file system and of the JSON parser and rethrow
  \<open>Error("Failed to read <filename>")\<close> and \<open>Error("Failed to write <filename>")\<close>.
  The result of \<open>readDataFile\<close> is cast to the expected type without any check, so a
  file that parses but does not hold an array of objects surfaces later as a JavaScript
  \<open>TypeError\<close> (calling \<open>find\<close> on a non-array, reading a property of \<open>null\<close>).
\<close>

datatype error = ReadFailed string | WriteFailed string | TypeError

text \<open>
  One reading of the system clock: the instant in milliseconds since the epoch
  (\<open>Date.now()\<close>, \<open>getTime()\<close>) together with its rendering by \<open>toISOString()\<close>.
  The calendar arithmetic of the platform is not part of this repository, so a reading
  carries both.
\<close>

datatype date = Date (getTime: nat) (toISOString: string)

text \<open>
  The world the service runs in.
  \<^item> \<open>files fn\<close> is the parsed content of the file \<open>fn\<close> of the data directory, or
    \<open>None\<close> when \<open>fs.readFile\<close> or \<open>JSON.parse\<close> throws on it (missing, unreadable,
    malformed).
  \<^item> \<open>unwritable fn\<close> holds when \<open>fs.writeFile\<close> on \<open>fn\<close> throws.
  \<^item> \<open>clock\<close> is the sequence of readings the system clock will give, one for each
    \<open>Date.now()\<close> and each \<open>new Date()\<close>; nothing forces two successive readings to
    be equal or different.
  \<^item> \<open>random\<close> is the sequence of values \<open>Math.random().toString(36)\<close> will give
    (strings such as \<open>0.4fzyo82mvyr\<close>).
\<close>

record world =
  files :: "string \<Rightarrow> json option"
  unwritable :: "string \<Rightarrow> bool"
  clock :: "date stream"
  random :: "string stream"

section \<open>Platform operations\<close>

definition Date_new :: "world \<Rightarrow> date \<times> world" where
  "Date_new w = (shd (clock w), w\<lparr>clock := stl (clock w)\<rparr>)"

definition Math_random :: "world \<Rightarrow> string \<times> world" where
  "Math_random w = (shd (random w), w\<lparr>random := stl (random w)\<rparr>)"

definition digits36 :: string where
  "digits36 = ''0123456789abcdefghijklmnopqrstuvwxyz''"

text \<open>
  \<open>Number.prototype.toString(radix)\<close> on a non-negative integer, for a radix from 2 to
  36, the only use being radix 36. The test \<open>b < 2\<close> only stops the recursion on a radix
  the platform rejects.
\<close>

function toString_radix :: "nat \<Rightarrow> nat \<Rightarrow> string" where
  "toString_radix b n =
     (if n < b \<or> b < 2 then [digits36 ! n]
      else toString_radix b (n div b) @ [digits36 ! (n mod b)])"
  by pat_completeness auto
termination
  by (relation "measure snd") auto

declare toString_radix.simps [simp del]

text \<open>
  A method of \<open>Array.prototype\<close> called on a value that was only cast to an array type:
  anything but an array has no such method, and the call throws.
\<close>

fun array_of :: "json \<Rightarrow> error + json list" where
  "array_of (JArr xs) = Inr xs"
| "array_of _ = Inl TypeError"

text \<open>
  The property read \<open>x.k\<close> for the keys \<open>id\<close> and \<open>slug\<close>: it throws on \<open>null\<close>,
  reads the property of an object (\<open>None\<close> is \<open>undefined\<close>), and is \<open>undefined\<close> on every
  other value.
\<close>

fun get_prop :: "json \<Rightarrow> string \<Rightarrow> error + json option" where
  "get_prop JNull k = Inl TypeError"
| "get_prop (JObj m) k = Inr (fmlookup m k)"
| "get_prop _ k = Inr None"

text \<open>The total reading of a field of a record, for statements about results.\<close>

fun field :: "json \<Rightarrow> string \<Rightarrow> json option" where
  "field (JObj m) k = fmlookup m k"
| "field _ k = None"

fun is_record :: "json \<Rightarrow> bool" where
  "is_record (JObj m) = True"
| "is_record _ = False"

text \<open>
  \<open>xs.find(x => x.k === v) || null\<close>: the first element whose property \<open>k\<close> is the
  string \<open>v\<close>; \<open>None\<close> is \<open>null\<close>. A match is an object, hence truthy.
\<close>

fun find_by :: "string \<Rightarrow> string \<Rightarrow> json list \<Rightarrow> error + json option" where
  "find_by k v [] = Inr None"
| "find_by k v (x # xs) =
     (case get_prop x k of
        Inl e \<Rightarrow> Inl e
      | Inr p \<Rightarrow> if p = Some (JStr v) then Inr (Some x) else find_by k v xs)"

text \<open>\<open>xs.findIndex(x => x.k === v)\<close>; \<open>None\<close> is \<open>-1\<close>.\<close>

fun findIndex_by :: "string \<Rightarrow> string \<Rightarrow> json list \<Rightarrow> error + nat option" where
  "findIndex_by k v [] = Inr None"
| "findIndex_by k v (x # xs) =
     (case get_prop x k of
        Inl e \<Rightarrow> Inl e
      | Inr p \<Rightarrow>
          if p = Some (JStr v) then Inr (Some 0)
          else (case findIndex_by k v xs of
                  Inl e \<Rightarrow> Inl e
                | Inr None \<Rightarrow> Inr None
                | Inr (Some i) \<Rightarrow> Inr (Some (Suc i))))"

text \<open>\<open>xs.filter(x => x.k !== v)\<close>.\<close>

fun filter_ne :: "string \<Rightarrow> string \<Rightarrow> json list \<Rightarrow> error + json list" where
  "filter_ne k v [] = Inr []"
| "filter_ne k v (x # xs) =
     (case get_prop x k of
        Inl e \<Rightarrow> Inl e
      | Inr p \<Rightarrow>
          (case filter_ne k v xs of
             Inl e \<Rightarrow> Inl e
           | Inr ys \<Rightarrow> Inr (if p \<noteq> Some (JStr v) then x # ys else ys)))"

text \<open>
  The own properties an object spread \<open>{...x}\<close> copies. It is only applied to an element
  that \<open>findIndex\<close> matched, which is an object.
\<close>

fun own_props :: "json \<Rightarrow> obj" where
  "own_props (JObj m) = m"
| "own_props _ = fmempty"

section \<open>The data service\<close>

text \<open>
  What \<open>JSON.parse\<close> reads back from \<open>JSON.stringify(v)\<close>: the non-finite numbers are
  written as \<open>null\<close>, everything else comes back as it was.
\<close>

primrec stringify_parse :: "json \<Rightarrow> json" where
  "stringify_parse JNull = JNull"
| "stringify_parse (JBool b) = JBool b"
| "stringify_parse (JNum n) = JNum n"
| "stringify_parse JNaN = JNull"
| "stringify_parse JInfinity = JNull"
| "stringify_parse JNegInfinity = JNull"
| "stringify_parse (JStr s) = JStr s"
| "stringify_parse (JArr xs) = JArr (map stringify_parse xs)"
| "stringify_parse (JObj m) = JObj (fmmap stringify_parse m)"

text \<open>
  \<open>readDataFile\<close> and \<open>writeDataFile\<close>. What is written is \<open>JSON.stringify(data)\<close>,
  so the file holds what a later read parses back from it. What a failed write leaves in
  the file is not modelled: a failing operation returns its error and no world.
  The \<open>console.error\<close> log lines are not modelled.
\<close>

definition readDataFile :: "world \<Rightarrow> string \<Rightarrow> error + json" where
  "readDataFile w filename =
     (case files w filename of
        None \<Rightarrow> Inl (ReadFailed filename)
      | Some v \<Rightarrow> Inr v)"

definition writeDataFile :: "world \<Rightarrow> string \<Rightarrow> json \<Rightarrow> error + world" where
  "writeDataFile w filename v =
     (if unwritable w filename then Inl (WriteFailed filename)
      else Inr (w\<lparr>files := (files w)(filename \<mapsto> stringify_parse v)\<rparr>))"

text \<open>\<open>Date.now().toString(36) + Math.random().toString(36).substr(2)\<close>.\<close>

definition generateId :: "world \<Rightarrow> string \<times> world" where
  "generateId w =
     (let (d, w1) = Date_new w;
          (r, w2) = Math_random w1
      in (toString_radix 36 (getTime d) @ drop 2 r, w2))"

subsection \<open>Pages\<close>

definition getPages :: "world \<Rightarrow> error + json" where
  "getPages w = readDataFile w ''pages.json''"

definition getPageBySlug :: "world \<Rightarrow> string \<Rightarrow> error + json option" where
  "getPageBySlug w slug =
     (case getPages w of
        Inl e \<Rightarrow> Inl e
      | Inr pages \<Rightarrow>
          (case array_of pages of
             Inl e \<Rightarrow> Inl e
           | Inr xs \<Rightarrow> find_by ''slug'' slug xs))"

definition getPageById :: "world \<Rightarrow> string \<Rightarrow> error + json option" where
  "getPageById w ident =
     (case getPages w of
        Inl e \<Rightarrow> Inl e
      | Inr pages \<Rightarrow>
          (case array_of pages of
             Inl e \<Rightarrow> Inl e
           | Inr xs \<Rightarrow> find_by ''id'' ident xs))"

text \<open>
  The new page is \<open>{...page, id, createdAt, updatedAt}\<close>: the three store-managed keys
  are written after the caller's fields. The clock is read three times: once in
  \<open>generateId\<close> and once for each timestamp.
\<close>

definition createPage :: "world \<Rightarrow> obj \<Rightarrow> error + (json \<times> world)" where
  "createPage w page =
     (case getPages w of
        Inl e \<Rightarrow> Inl e
      | Inr pages \<Rightarrow>
          (let (newId, w1) = generateId w;
               (d1, w2) = Date_new w1;
               (d2, w3) = Date_new w2;
               newPage = JObj (fmupd ''updatedAt'' (JStr (toISOString d2))
                              (fmupd ''createdAt'' (JStr (toISOString d1))
                              (fmupd ''id'' (JStr newId) page)))
           in (case array_of pages of
                 Inl e \<Rightarrow> Inl e
               | Inr xs \<Rightarrow>
                   (case writeDataFile w3 ''pages.json'' (JArr (xs @ [newPage])) of
                      Inl e \<Rightarrow> Inl e
                    | Inr w4 \<Rightarrow> Inr (newPage, w4)))))"

text \<open>
  The updated page is \<open>{...pages[index], ...updates, updatedAt}\<close>: the caller's fields
  are written over the stored ones, and only \<open>updatedAt\<close> is written after them.
\<close>

definition updatePage :: "world \<Rightarrow> string \<Rightarrow> obj \<Rightarrow> error + (json option \<times> world)" where
  "updatePage w ident updates =
     (case getPages w of
        Inl e \<Rightarrow> Inl e
      | Inr pages \<Rightarrow>
          (case array_of pages of
             Inl e \<Rightarrow> Inl e
           | Inr xs \<Rightarrow>
               (case findIndex_by ''id'' ident xs of
                  Inl e \<Rightarrow> Inl e
                | Inr None \<Rightarrow> Inr (None, w)
                | Inr (Some index) \<Rightarrow>
                    (let (d, w1) = Date_new w;
                         updatedPage = JObj (fmupd ''updatedAt'' (JStr (toISOString d))
                                          (own_props (xs ! index) ++\<^sub>f updates))
                     in (case writeDataFile w1 ''pages.json'' (JArr (xs[index := updatedPage])) of
                           Inl e \<Rightarrow> Inl e
                         | Inr w2 \<Rightarrow> Inr (Some updatedPage, w2))))))"

definition deletePage :: "world \<Rightarrow> string \<Rightarrow> error + (bool \<times> world)" where
  "deletePage w ident =
     (case getPages w of
        Inl e \<Rightarrow> Inl e
      | Inr pages \<Rightarrow>
          (case array_of pages of
             Inl e \<Rightarrow> Inl e
           | Inr xs \<Rightarrow>
               (case filter_ne ''id'' ident xs of
                  Inl e \<Rightarrow> Inl e
                | Inr filteredPages \<Rightarrow>
                    if length filteredPages = length xs then Inr (False, w)
                    else (case writeDataFile w ''pages.json'' (JArr filteredPages) of
                            Inl e \<Rightarrow> Inl e
                          | Inr w1 \<Rightarrow> Inr (True, w1)))))"

text \<open>
  A client that issues one \<open>createPage\<close> call after the other, with nothing else touching
  the world in between, and collects the records returned.
\<close>

fun createPages :: "world \<Rightarrow> obj list \<Rightarrow> error + (json list \<times> world)" where
  "createPages w [] = Inr ([], w)"
| "createPages w (page # rest) =
     (case createPage w page of
        Inl e \<Rightarrow> Inl e
      | Inr (r, w1) \<Rightarrow>
          (case createPages w1 rest of
             Inl e \<Rightarrow> Inl e
           | Inr (rs, w2) \<Rightarrow> Inr (r # rs, w2)))"

subsection \<open>Blog posts\<close>

definition getBlogPosts :: "world \<Rightarrow> error + json" where
  "getBlogPosts w = readDataFile w ''blog-posts.json''"

text \<open>
  The new post is \<open>{...post, id, publishedDate, updatedDate, views: 0, likes: 0}\<close>.
  \<open>publishedDate\<close> and \<open>updatedDate\<close> come from two separate \<open>new Date()\<close>.
\<close>

definition createBlogPost :: "world \<Rightarrow> obj \<Rightarrow> error + (json \<times> world)" where
  "createBlogPost w post =
     (case getBlogPosts w of
        Inl e \<Rightarrow> Inl e
      | Inr posts \<Rightarrow>
          (let (newId, w1) = generateId w;
               (d1, w2) = Date_new w1;
               (d2, w3) = Date_new w2;
               newPost = JObj (fmupd ''likes'' (JNum 0)
                              (fmupd ''views'' (JNum 0)
                              (fmupd ''updatedDate'' (JStr (toISOString d2))
                              (fmupd ''publishedDate'' (JStr (toISOString d1))
                              (fmupd ''id'' (JStr newId) post)))))
           in (case array_of posts of
                 Inl e \<Rightarrow> Inl e
               | Inr xs \<Rightarrow>
                   (case writeDataFile w3 ''blog-posts.json'' (JArr (xs @ [newPost])) of
                      Inl e \<Rightarrow> Inl e
                    | Inr w4 \<Rightarrow> Inr (newPost, w4)))))"

subsection \<open>Doctors\<close>

definition getDoctors :: "world \<Rightarrow> error + json" where
  "getDoctors w = readDataFile w ''doctors.json''"

definition getDoctorById :: "world \<Rightarrow> string \<Rightarrow> error + json option" where
  "getDoctorById w ident =
     (case getDoctors w of
        Inl e \<Rightarrow> Inl e
      | Inr doctors \<Rightarrow>
          (case array_of doctors of
             Inl e \<Rightarrow> Inl e
           | Inr xs \<Rightarrow> find_by ''id'' ident xs))"

text \<open>The updated doctor is \<open>{...doctors[index], ...updates}\<close>: no timestamp is written.\<close>

definition updateDoctor :: "world \<Rightarrow> string \<Rightarrow> obj \<Rightarrow> error + (json option \<times> world)" where
  "updateDoctor w ident updates =
     (case getDoctors w of
        Inl e \<Rightarrow> Inl e
      | Inr doctors \<Rightarrow>
          (case array_of doctors of
             Inl e \<Rightarrow> Inl e
           | Inr xs \<Rightarrow>
               (case findIndex_by ''id'' ident xs of
                  Inl e \<Rightarrow> Inl e
                | Inr None \<Rightarrow> Inr (None, w)
                | Inr (Some index) \<Rightarrow>
                    (let updatedDoctor = JObj (own_props (xs ! index) ++\<^sub>f updates)
                     in (case writeDataFile w ''doctors.json'' (JArr (xs[index := updatedDoctor])) of
                           Inl e \<Rightarrow> Inl e
                         | Inr w1 \<Rightarrow> Inr (Some updatedDoctor, w1))))))"

subsection \<open>Cases, SEO settings and the aggregate\<close>

definition getCases :: "world \<Rightarrow> error + json" where
  "getCases w = readDataFile w ''cases.json''"

definition getSEOSettings :: "world \<Rightarrow> error + json" where
  "getSEOSettings w = readDataFile w ''seo-settings.json''"

text \<open>
  \<open>getAllData\<close> awaits \<open>Promise.all\<close> of the five reads and builds the \<open>Database\<close>
  object from their results. \<open>Promise.all\<close> rejects as soon as one of the reads rejects;
  which error it reports when several reads fail depends on their timing, and the model
  reports the first in the order of the array.
\<close>

definition getAllData :: "world \<Rightarrow> error + json" where
  "getAllData w =
     (case getPages w of
        Inl e \<Rightarrow> Inl e
      | Inr pages \<Rightarrow>
     (case getBlogPosts w of
        Inl e \<Rightarrow> Inl e
      | Inr blogPosts \<Rightarrow>
     (case getDoctors w of
        Inl e \<Rightarrow> Inl e
      | Inr doctors \<Rightarrow>
     (case getCases w of
        Inl e \<Rightarrow> Inl e
      | Inr cases \<Rightarrow>
     (case getSEOSettings w of
        Inl e \<Rightarrow> Inl e
      | Inr seoSettings \<Rightarrow>
          Inr (JObj (fmap_of_list
                 [(''pages'', pages),
                  (''blog-posts'', blogPosts),
                  (''doctors'', doctors),
                  (''cases'', cases),
                  (''seo-settings'', seoSettings)])))))))"

section \<open>Example worlds\<close>

text \<open>
  A data directory with one page and one doctor, every file readable and writable. The
  clock gives the same reading twice and then advances by one millisecond.
\<close>

definition demo_page :: json where
  "demo_page = JObj (fmap_of_list
     [(''id'', JStr ''p1''),
      (''slug'', JStr ''home''),
      (''title'', JStr ''Home''),
      (''createdAt'', JStr ''2023-01-01T00:00:00.000Z''),
      (''updatedAt'', JStr ''2023-01-01T00:00:00.000Z'')])"

definition demo_doctor :: json where
  "demo_doctor = JObj (fmap_of_list
     [(''id'', JStr ''d1''),
      (''slug'', JStr ''dr-a''),
      (''name'', JStr ''Dr. A'')])"

definition demo_files :: "string \<Rightarrow> json option" where
  "demo_files =
     [''pages.json'' \<mapsto> JArr [demo_page],
      ''blog-posts.json'' \<mapsto> JArr [],
      ''doctors.json'' \<mapsto> JArr [demo_doctor],
      ''cases.json'' \<mapsto> JArr [],
      ''services.json'' \<mapsto>
         JArr [JObj (fmap_of_list [(''id'', JStr ''s1''), (''name'', JStr ''Consultation'')])],
      ''seo-settings.json'' \<mapsto>
         JObj (fmap_of_list [(''id'', JStr ''seo''), (''siteName'', JStr ''Clinic'')])]"

definition demo_clock :: "date stream" where
  "demo_clock =
     Date 1700000000000 ''2023-11-14T22:13:20.000Z'' ##
     Date 1700000000000 ''2023-11-14T22:13:20.000Z'' ##
     sconst (Date 1700000000001 ''2023-11-14T22:13:20.001Z'')"

definition demo_world :: world where
  "demo_world =
     \<lparr>files = demo_files,
      unwritable = (\<lambda>fn. False),
      clock = demo_clock,
      random = sconst ''0.4fzyo82mvyr''\<rparr>"

text \<open>
  The clock stands still and \<open>Math.random\<close> repeats itself; the collection of pages is
  empty.
\<close>

definition frozen_world :: world where
  "frozen_world =
     \<lparr>files = [''pages.json'' \<mapsto> JArr []],
      unwritable = (\<lambda>fn. False),
      clock = sconst (Date 1700000000000 ''2023-11-14T22:13:20.000Z''),
      random = sconst ''0.4fzyo82mvyr''\<rparr>"

text \<open>
  The collection of pages already holds a record whose id is the one the next
  \<open>generateId\<close> gives.
\<close>

definition clash_page :: json where
  "clash_page = JObj (fmap_of_list [(''id'', JStr ''loyw3v284fzyo82mvyr''), (''title'', JStr ''Old'')])"

definition clash_world :: world where
  "clash_world = demo_world\<lparr>files := [''pages.json'' \<mapsto> JArr [clash_page]]\<rparr>"

text \<open>A payload that names the store-managed fields of a page.\<close>

definition id_payload :: obj where
  "id_payload = fmap_of_list
     [(''id'', JStr ''p2''), (''createdAt'', JStr ''1999-12-31T00:00:00.000Z'')]"

text \<open>
  A payload for a page whose one component has the order \<open>NaN\<close>, a value of its type
  \<open>number\<close>.
\<close>

definition nan_payload :: obj where
  "nan_payload = fmap_of_list
     [(''title'', JStr ''New''),
      (''components'', JArr [JObj (fmap_of_list [(''id'', JStr ''c1''), (''order'', JNaN)])])]"

text \<open>A payload that names the store-managed fields of a blog post.\<close>

definition post_payload :: obj where
  "post_payload = fmap_of_list
     [(''title'', JStr ''Hello''),
      (''views'', JNum 99),
      (''likes'', JNum 7),
      (''publishedDate'', JStr ''1999-12-31T00:00:00.000Z'')]"

text \<open>The frozen clock, with an empty collection of blog posts.\<close>

definition frozen_posts :: world where
  "frozen_posts = frozen_world\<lparr>files := [''blog-posts.json'' \<mapsto> JArr []]\<rparr>"

text \<open>The directory without its file of doctors.\<close>

definition broken_world :: world where
  "broken_world = demo_world\<lparr>files := (files demo_world)(''doctors.json'' := None)\<rparr>"

text \<open>The same directory with a second page, whose fields are \<open>a\<close> and \<open>b\<close>.\<close>

definition merge_page :: json where
  "merge_page = JObj (fmap_of_list [(''id'', JStr ''r1''), (''a'', JNum 1), (''b'', JNum 2)])"

definition merge_world :: world where
  "merge_world = demo_world\<lparr>files := [''pages.json'' \<mapsto> JArr [demo_page, merge_page]]\<rparr>"

section \<open>Array searches\<close>

lemma get_prop_eq_StrD:
  "get_prop x k = Inr (Some (JStr v)) \<Longrightarrow> \<exists>m. x = JObj m \<and> fmlookup m k = Some (JStr v)"
  by (cases x) auto

lemma get_prop_record: "is_record x \<Longrightarrow> get_prop x k = Inr (field x k)"
  by (cases x) auto

lemma findIndex_by_None_iff:
  "findIndex_by k v xs = Inr None \<longleftrightarrow> find_by k v xs = Inr None"
  by (induction xs) (auto split: sum.splits option.splits)

lemma findIndex_by_SomeD:
  "findIndex_by k v xs = Inr (Some i) \<Longrightarrow>
     i < length xs \<and> find_by k v xs = Inr (Some (xs ! i)) \<and>
     (\<exists>m. xs ! i = JObj m \<and> fmlookup m k = Some (JStr v))"
proof (induction xs arbitrary: i)
  case Nil
  then show ?case by simp
next
  case (Cons x xs)
  show ?case
  proof (cases "get_prop x k = Inr (Some (JStr v))")
    case True
    with Cons.prems have "i = 0" by simp
    with True show ?thesis by (auto dest: get_prop_eq_StrD)
  next
    case False
    with Cons.prems obtain j p where j: "findIndex_by k v xs = Inr (Some j)" "i = Suc j"
      and p: "get_prop x k = Inr p" "p \<noteq> Some (JStr v)"
      by (auto split: sum.splits option.splits if_splits)
    from Cons.IH [OF j(1)] j(2) p show ?thesis
      by auto
  qed
qed

lemma find_by_SomeD:
  "find_by k v xs = Inr (Some x) \<Longrightarrow>
     \<exists>i. findIndex_by k v xs = Inr (Some i) \<and> i < length xs \<and> xs ! i = x"
proof (induction xs)
  case Nil
  then show ?case by simp
next
  case (Cons y ys)
  show ?case
  proof (cases "get_prop y k = Inr (Some (JStr v))")
    case True
    with Cons.prems show ?thesis by auto
  next
    case False
    with Cons.prems have "find_by k v ys = Inr (Some x)"
      by (auto split: sum.splits if_splits)
    from Cons.IH [OF this] obtain i where
      "findIndex_by k v ys = Inr (Some i)" "i < length ys" "ys ! i = x" by blast
    with False Cons.prems show ?thesis
      by (auto split: sum.splits if_splits intro!: exI [of _ "Suc i"])
  qed
qed

lemma find_by_None_filter_ne:
  "find_by k v xs = Inr None \<Longrightarrow> filter_ne k v xs = Inr xs"
  by (induction xs) (auto split: sum.splits if_splits)

lemma filter_ne_records:
  "list_all is_record xs \<Longrightarrow>
     filter_ne k v xs = Inr (filter (\<lambda>x. field x k \<noteq> Some (JStr v)) xs)"
  by (induction xs) (auto simp: get_prop_record)

lemma find_by_records_None:
  "list_all is_record xs \<Longrightarrow>
     find_by k v xs = Inr None \<longleftrightarrow> list_all (\<lambda>x. field x k \<noteq> Some (JStr v)) xs"
  by (induction xs) (auto simp: get_prop_record)

lemma find_by_filter_ne:
  "filter_ne k v xs = Inr ys \<Longrightarrow> find_by k v ys = Inr None"
  by (induction xs arbitrary: ys) (auto split: sum.splits if_splits)

lemma find_by_append_fresh:
  "find_by k v xs = Inr None \<Longrightarrow> find_by k v (xs @ ys) = find_by k v ys"
  by (induction xs) (auto split: sum.splits if_splits)


section \<open>What a write stores\<close>

lemma stringify_parse_eq_JStr: "stringify_parse y = JStr v \<longleftrightarrow> y = JStr v"
  by (cases y) auto

lemma is_record_stringify_parse: "is_record x \<Longrightarrow> is_record (stringify_parse x)"
  by (cases x) auto

lemma field_stringify_parse:
  "field (stringify_parse x) k = map_option stringify_parse (field x k)"
  by (cases x) auto

lemma field_stringify_parse_eq_JStr:
  "field (stringify_parse x) k = Some (JStr v) \<longleftrightarrow> field x k = Some (JStr v)"
  by (cases "field x k") (auto simp: field_stringify_parse stringify_parse_eq_JStr)

lemma find_by_None_stringify_parse:
  assumes "list_all is_record xs" and "find_by k v xs = Inr None"
  shows "find_by k v (map stringify_parse xs) = Inr None"
proof -
  from assms have "list_all (\<lambda>x. field x k \<noteq> Some (JStr v)) xs"
    by (simp add: find_by_records_None)
  then have "list_all (\<lambda>x. field x k \<noteq> Some (JStr v)) (map stringify_parse xs)"
    by (simp add: list_all_iff field_stringify_parse_eq_JStr)
  moreover from assms(1) have "list_all is_record (map stringify_parse xs)"
    by (simp add: list_all_iff is_record_stringify_parse)
  ultimately show ?thesis
    by (simp add: find_by_records_None)
qed

section \<open>Updates of a stored record\<close>

lemma getPageById_SomeD:
  assumes "getPageById w ident = Inr (Some old)"
  shows "\<exists>xs i m. getPages w = Inr (JArr xs) \<and> findIndex_by ''id'' ident xs = Inr (Some i) \<and>
           i < length xs \<and> xs ! i = old \<and> old = JObj m \<and> fmlookup m ''id'' = Some (JStr ident)"
proof -
  from assms obtain pages where p: "getPages w = Inr pages"
    by (auto simp: getPageById_def split: sum.splits)
  with assms obtain xs where xs: "pages = JArr xs"
    by (cases pages) (auto simp: getPageById_def)
  with p assms have "find_by ''id'' ident xs = Inr (Some old)"
    by (simp add: getPageById_def)
  from find_by_SomeD [OF this] obtain i where
    i: "findIndex_by ''id'' ident xs = Inr (Some i)" "i < length xs" "xs ! i = old"
    by blast
  from findIndex_by_SomeD [OF i(1)] i(3) obtain m where
    "old = JObj m" "fmlookup m ''id'' = Some (JStr ident)" by auto
  with p xs i show ?thesis by blast
qed

lemma getDoctorById_SomeD:
  assumes "getDoctorById w ident = Inr (Some old)"
  shows "\<exists>xs i m. getDoctors w = Inr (JArr xs) \<and> findIndex_by ''id'' ident xs = Inr (Some i) \<and>
           i < length xs \<and> xs ! i = old \<and> old = JObj m \<and> fmlookup m ''id'' = Some (JStr ident)"
proof -
  from assms obtain doctors where p: "getDoctors w = Inr doctors"
    by (auto simp: getDoctorById_def split: sum.splits)
  with assms obtain xs where xs: "doctors = JArr xs"
    by (cases doctors) (auto simp: getDoctorById_def)
  with p assms have "find_by ''id'' ident xs = Inr (Some old)"
    by (simp add: getDoctorById_def)
  from find_by_SomeD [OF this] obtain i where
    i: "findIndex_by ''id'' ident xs = Inr (Some i)" "i < length xs" "xs ! i = old"
    by blast
  from findIndex_by_SomeD [OF i(1)] i(3) obtain m where
    "old = JObj m" "fmlookup m ''id'' = Some (JStr ident)" by auto
  with p xs i show ?thesis by blast
qed

lemma updatePage_existing:
  assumes "getPageById w ident = Inr (Some old)" and "\<not> unwritable w ''pages.json''"
  shows "\<exists>w1. updatePage w ident updates =
           Inr (Some (JObj (fmupd ''updatedAt'' (JStr (toISOString (shd (clock w))))
                              (own_props old ++\<^sub>f updates))), w1)"
proof -
  from getPageById_SomeD [OF assms(1)] obtain xs i where
    "getPages w = Inr (JArr xs)" "findIndex_by ''id'' ident xs = Inr (Some i)" "xs ! i = old"
    by blast
  with assms(2) show ?thesis
    by (simp add: updatePage_def Date_new_def writeDataFile_def Let_def)
qed

lemma updateDoctor_existing:
  assumes "getDoctorById w ident = Inr (Some old)" and "\<not> unwritable w ''doctors.json''"
  shows "\<exists>w1. updateDoctor w ident updates = Inr (Some (JObj (own_props old ++\<^sub>f updates)), w1)"
proof -
  from getDoctorById_SomeD [OF assms(1)] obtain xs i where
    "getDoctors w = Inr (JArr xs)" "findIndex_by ''id'' ident xs = Inr (Some i)" "xs ! i = old"
    by blast
  with assms(2) show ?thesis
    by (simp add: updateDoctor_def writeDataFile_def Let_def)
qed

lemma field_merge:
  "field (JObj (own_props old ++\<^sub>f updates)) k =
     (case fmlookup updates k of None \<Rightarrow> field old k | Some v \<Rightarrow> Some v)"
  by (cases old) (auto simp: fmlookup_dom_iff split: option.splits)

section \<open>Creation of a record\<close>

lemma base36_example: "toString_radix 36 1700000000000 = ''loyw3v28''"
  by (simp add: toString_radix.simps digits36_def)

lemma generateId_fst:
  "fst (generateId w) = toString_radix 36 (getTime (shd (clock w))) @ drop 2 (shd (random w))"
  by (simp add: generateId_def Date_new_def Math_random_def)

lemma createPage_writable:
  assumes "getPages w = Inr (JArr xs)" and "\<not> unwritable w ''pages.json''"
  shows "\<exists>r w1. createPage w page = Inr (r, w1) \<and>
           r = JObj (fmupd ''updatedAt'' (JStr (toISOString (shd (stl (stl (clock w))))))
                    (fmupd ''createdAt'' (JStr (toISOString (shd (stl (clock w)))))
                    (fmupd ''id'' (JStr (fst (generateId w))) page))) \<and>
           getPages w1 = Inr (JArr (map stringify_parse xs @ [stringify_parse r])) \<and>
           unwritable w1 = unwritable w"
  using assms
  by (simp add: createPage_def generateId_def Date_new_def Math_random_def writeDataFile_def
        getPages_def readDataFile_def Let_def split: option.splits)

lemmas demo_defs = demo_world_def demo_files_def demo_page_def demo_doctor_def demo_clock_def
lemmas read_defs = getPages_def getDoctors_def getBlogPosts_def getCases_def getSEOSettings_def readDataFile_def

section \<open>Lookups and deletions of absent keys\<close>

text \<open>
  Claim C7. When the file of the collection is read and parsed to a sequence of records,
  \<open>getPageById\<close>, \<open>getPageBySlug\<close> and \<open>deletePage\<close> on a key that no record carries
  return the not-found outcome (\<open>null\<close>, \<open>null\<close>, \<open>false\<close>): none of them fails, and
  the deletion writes nothing.
\<close>

theorem not_found_is_not_error:
  assumes "getPages w = Inr (JArr xs)" and "list_all is_record xs"
  shows "(list_all (\<lambda>x. field x ''id'' \<noteq> Some (JStr key)) xs \<longrightarrow>
            getPageById w key = Inr None \<and> deletePage w key = Inr (False, w)) \<and>
         (list_all (\<lambda>x. field x ''slug'' \<noteq> Some (JStr key)) xs \<longrightarrow>
            getPageBySlug w key = Inr None)"
proof (intro conjI impI)
  assume a: "list_all (\<lambda>x. field x ''id'' \<noteq> Some (JStr key)) xs"
  with assms(2) have f: "find_by ''id'' key xs = Inr None"
    by (simp add: find_by_records_None)
  with assms(1) show "getPageById w key = Inr None"
    by (simp add: getPageById_def)
  from f have "filter_ne ''id'' key xs = Inr xs"
    by (rule find_by_None_filter_ne)
  with assms(1) show "deletePage w key = Inr (False, w)"
    by (simp add: deletePage_def)
next
  assume "list_all (\<lambda>x. field x ''slug'' \<noteq> Some (JStr key)) xs"
  with assms(2) have "find_by ''slug'' key xs = Inr None"
    by (simp add: find_by_records_None)
  with assms(1) show "getPageBySlug w key = Inr None"
    by (simp add: getPageBySlug_def)
qed

theorem not_found_is_not_error_witness:
  "getPages demo_world = Inr (JArr [demo_page]) \<and>
   list_all is_record [demo_page] \<and>
   list_all (\<lambda>x. field x ''id'' \<noteq> Some (JStr ''p9'')) [demo_page] \<and>
   list_all (\<lambda>x. field x ''slug'' \<noteq> Some (JStr ''p9'')) [demo_page] \<and>
   getPageById demo_world ''p9'' = Inr None \<and>
   deletePage demo_world ''p9'' = Inr (False, demo_world) \<and>
   getPageBySlug demo_world ''p9'' = Inr None"
proof -
  have h1: "getPages demo_world = Inr (JArr [demo_page])"
    by (simp add: read_defs demo_world_def demo_files_def)
  have h2: "list_all is_record [demo_page]"
    by (simp add: demo_page_def)
  have h3: "list_all (\<lambda>x. field x ''id'' \<noteq> Some (JStr ''p9'')) [demo_page]"
    by (simp add: demo_page_def)
  have h4: "list_all (\<lambda>x. field x ''slug'' \<noteq> Some (JStr ''p9'')) [demo_page]"
    by (simp add: demo_page_def)
  from not_found_is_not_error [OF h1 h2, of "''p9''"] h1 h2 h3 h4
  show ?thesis by blast
qed

text \<open>
  Claim C8. When no record carries the given id (the lookup by that id returns \<open>null\<close>),
  \<open>updatePage\<close> and \<open>updateDoctor\<close> return \<open>null\<close> and the world is the one they
  started in: no file is written and the clock is not read.
\<close>

theorem update_absent_no_side_effect:
  "(getPageById w ident = Inr None \<longrightarrow> updatePage w ident updates = Inr (None, w)) \<and>
   (getDoctorById w ident = Inr None \<longrightarrow> updateDoctor w ident updates = Inr (None, w))"
proof (intro conjI impI)
  assume "getPageById w ident = Inr None"
  then show "updatePage w ident updates = Inr (None, w)"
    by (auto simp: getPageById_def updatePage_def findIndex_by_None_iff [symmetric]
             split: sum.splits)
next
  assume "getDoctorById w ident = Inr None"
  then show "updateDoctor w ident updates = Inr (None, w)"
    by (auto simp: getDoctorById_def updateDoctor_def findIndex_by_None_iff [symmetric]
             split: sum.splits)
qed

theorem update_absent_no_side_effect_witness:
  "getPageById demo_world ''p9'' = Inr None \<and>
   updatePage demo_world ''p9'' (fmap_of_list [(''title'', JStr ''X'')]) = Inr (None, demo_world) \<and>
   getDoctorById demo_world ''d9'' = Inr None \<and>
   updateDoctor demo_world ''d9'' (fmap_of_list [(''name'', JStr ''X'')]) = Inr (None, demo_world)"
proof -
  have p: "getPageById demo_world ''p9'' = Inr None"
    by (simp add: getPageById_def read_defs demo_defs)
  have d: "getDoctorById demo_world ''d9'' = Inr None"
    by (simp add: getDoctorById_def read_defs demo_defs)
  from p d update_absent_no_side_effect [of demo_world "''p9''" "fmap_of_list [(''title'', JStr ''X'')]"]
    update_absent_no_side_effect [of demo_world "''d9''" "fmap_of_list [(''name'', JStr ''X'')]"]
  show ?thesis by simp
qed

text \<open>
  Claim C9. Deleting an id that no record carries returns \<open>false\<close> and changes nothing.
  Deleting an id that a record of a well-formed, writable collection carries returns
  \<open>true\<close>, and deleting the same id again right after returns \<open>false\<close>.
\<close>

theorem delete_twice:
  "(getPageById w ident = Inr None \<longrightarrow> deletePage w ident = Inr (False, w)) \<and>
   (getPages w = Inr (JArr xs) \<and> list_all is_record xs \<and>
    list_ex (\<lambda>x. field x ''id'' = Some (JStr ident)) xs \<and>
    \<not> unwritable w ''pages.json'' \<longrightarrow>
      (\<exists>w1. deletePage w ident = Inr (True, w1) \<and> deletePage w1 ident = Inr (False, w1)))"
proof (intro conjI impI)
  assume "getPageById w ident = Inr None"
  then show "deletePage w ident = Inr (False, w)"
    by (auto simp: getPageById_def deletePage_def split: sum.splits
             dest: find_by_None_filter_ne)
next
  assume a: "getPages w = Inr (JArr xs) \<and> list_all is_record xs \<and>
    list_ex (\<lambda>x. field x ''id'' = Some (JStr ident)) xs \<and>
    \<not> unwritable w ''pages.json''"
  define ys where "ys = filter (\<lambda>x. field x ''id'' \<noteq> Some (JStr ident)) xs"
  define zs where "zs = map stringify_parse ys"
  define w1 where "w1 = w\<lparr>files := (files w)(''pages.json'' \<mapsto> JArr zs)\<rparr>"
  from a have fl: "filter_ne ''id'' ident xs = Inr ys"
    by (simp add: filter_ne_records ys_def)
  from a have "length ys < length xs"
    unfolding ys_def by (auto simp: list_ex_iff intro: length_filter_less)
  with a fl have first: "deletePage w ident = Inr (True, w1)"
    by (simp add: deletePage_def writeDataFile_def w1_def zs_def)
  have rd: "getPages w1 = Inr (JArr zs)"
    by (simp add: w1_def getPages_def readDataFile_def)
  from a have rec: "list_all is_record ys"
    by (simp add: ys_def list_all_iff)
  from fl have "find_by ''id'' ident ys = Inr None"
    by (rule find_by_filter_ne)
  with rec have "find_by ''id'' ident zs = Inr None"
    unfolding zs_def by (rule find_by_None_stringify_parse)
  then have "filter_ne ''id'' ident zs = Inr zs"
    by (rule find_by_None_filter_ne)
  with rd have "deletePage w1 ident = Inr (False, w1)"
    by (simp add: deletePage_def)
  with first show "\<exists>w1. deletePage w ident = Inr (True, w1) \<and> deletePage w1 ident = Inr (False, w1)"
    by blast
qed

theorem delete_twice_witness:
  "getPageById demo_world ''p9'' = Inr None \<and>
   deletePage demo_world ''p9'' = Inr (False, demo_world) \<and>
   getPages demo_world = Inr (JArr [demo_page]) \<and>
   list_all is_record [demo_page] \<and>
   list_ex (\<lambda>x. field x ''id'' = Some (JStr ''p1'')) [demo_page] \<and>
   \<not> unwritable demo_world ''pages.json'' \<and>
   (\<exists>w1. deletePage demo_world ''p1'' = Inr (True, w1) \<and> deletePage w1 ''p1'' = Inr (False, w1))"
proof -
  have h0: "getPageById demo_world ''p9'' = Inr None"
    by (simp add: getPageById_def read_defs demo_defs)
  have h1: "getPages demo_world = Inr (JArr [demo_page])"
    by (simp add: read_defs demo_world_def demo_files_def)
  have h2: "list_all is_record [demo_page]"
    by (simp add: demo_page_def)
  have h3: "list_ex (\<lambda>x. field x ''id'' = Some (JStr ''p1'')) [demo_page]"
    by (simp add: demo_page_def)
  have h4: "\<not> unwritable demo_world ''pages.json''"
    by (simp add: demo_world_def)
  from delete_twice [of demo_world "''p9''" "[demo_page]"]
       delete_twice [of demo_world "''p1''" "[demo_page]"] h0 h1 h2 h3 h4
  show ?thesis by blast
qed

section \<open>Updates\<close>

text \<open>
  Claim C3. \<open>updatePage\<close> merges and does not replace: on a stored record and a writable
  file it returns a record in which every field the payload does not name keeps the value
  of the stored record, and every field the payload names has the payload's value. The
  one field left out is \<open>updatedAt\<close>, which the store advances on every update.
\<close>

theorem update_merges:
  assumes "getPageById w ident = Inr (Some old)" and "\<not> unwritable w ''pages.json''"
  shows "\<exists>r w1. updatePage w ident updates = Inr (Some r, w1) \<and>
           (\<forall>k. k \<noteq> ''updatedAt'' \<longrightarrow>
              field r k = (case fmlookup updates k of None \<Rightarrow> field old k | Some v \<Rightarrow> Some v))"
proof -
  let ?m = "own_props old ++\<^sub>f updates"
  let ?r = "JObj (fmupd ''updatedAt'' (JStr (toISOString (shd (clock w)))) ?m)"
  from updatePage_existing [OF assms] obtain w1 where
    u: "updatePage w ident updates = Inr (Some ?r, w1)" by blast
  have "field ?r k = (case fmlookup updates k of None \<Rightarrow> field old k | Some v \<Rightarrow> Some v)"
    if "k \<noteq> ''updatedAt''" for k
  proof -
    from that have "field ?r k = field (JObj ?m) k" by simp
    then show ?thesis by (simp only: field_merge)
  qed
  with u show ?thesis by blast
qed

theorem update_merges_witness:
  "getPageById merge_world ''r1'' = Inr (Some merge_page) \<and>
   \<not> unwritable merge_world ''pages.json'' \<and>
   field merge_page ''a'' = Some (JNum 1) \<and>
   field merge_page ''b'' = Some (JNum 2) \<and>
   (\<exists>r w1. updatePage merge_world ''r1'' (fmap_of_list [(''b'', JNum 3)]) = Inr (Some r, w1) \<and>
      field r ''a'' = Some (JNum 1) \<and> field r ''b'' = Some (JNum 3) \<and>
      field r ''id'' = Some (JStr ''r1''))"
proof -
  have h1: "getPageById merge_world ''r1'' = Inr (Some merge_page)"
    by (simp add: getPageById_def read_defs merge_world_def merge_page_def demo_page_def)
  have h2: "\<not> unwritable merge_world ''pages.json''"
    by (simp add: merge_world_def demo_world_def)
  from update_merges [OF h1 h2, of "fmap_of_list [(''b'', JNum 3)]"] obtain r w1 where
    u: "updatePage merge_world ''r1'' (fmap_of_list [(''b'', JNum 3)]) = Inr (Some r, w1)"
    and f: "\<And>k. k \<noteq> ''updatedAt'' \<Longrightarrow>
      field r k = (case fmlookup (fmap_of_list [(''b'', JNum 3)]) k of
                     None \<Rightarrow> field merge_page k | Some v \<Rightarrow> Some v)"
    by blast
  have "field r ''a'' = Some (JNum 1)" "field r ''b'' = Some (JNum 3)"
    "field r ''id'' = Some (JStr ''r1'')"
    by (simp_all add: f merge_page_def)
  with u h1 h2 show ?thesis
    by (simp add: merge_page_def)
qed

text \<open>
  Claim C1, as the code has it. \<open>updatePage\<close> on a stored record sets \<open>updatedAt\<close>
  to the clock reading taken during the call. \<open>id\<close> and \<open>createdAt\<close> keep their
  stored values when the payload has no such field, and take the payload's values when it
  has. \<open>updateDoctor\<close> stamps nothing: \<open>id\<close> and \<open>updatedAt\<close> are the payload's
  values when the payload has them and the stored ones otherwise.
\<close>

theorem update_stamps:
  "(getPageById w ident = Inr (Some old) \<and> \<not> unwritable w ''pages.json'' \<longrightarrow>
      (\<exists>r w1. updatePage w ident updates = Inr (Some r, w1) \<and>
         field r ''updatedAt'' = Some (JStr (toISOString (shd (clock w)))) \<and>
         field r ''id'' =
           (case fmlookup updates ''id'' of None \<Rightarrow> Some (JStr ident) | Some v \<Rightarrow> Some v) \<and>
         field r ''createdAt'' =
           (case fmlookup updates ''createdAt'' of
              None \<Rightarrow> field old ''createdAt'' | Some v \<Rightarrow> Some v))) \<and>
   (getDoctorById w ident = Inr (Some old) \<and> \<not> unwritable w ''doctors.json'' \<longrightarrow>
      (\<exists>r w1. updateDoctor w ident updates = Inr (Some r, w1) \<and>
         field r ''id'' =
           (case fmlookup updates ''id'' of None \<Rightarrow> Some (JStr ident) | Some v \<Rightarrow> Some v) \<and>
         field r ''updatedAt'' =
           (case fmlookup updates ''updatedAt'' of
              None \<Rightarrow> field old ''updatedAt'' | Some v \<Rightarrow> Some v)))"
proof (intro conjI impI)
  assume a: "getPageById w ident = Inr (Some old) \<and> \<not> unwritable w ''pages.json''"
  let ?m = "own_props old ++\<^sub>f updates"
  let ?r = "JObj (fmupd ''updatedAt'' (JStr (toISOString (shd (clock w)))) ?m)"
  from a updatePage_existing [of w ident old updates] obtain w1 where
    u: "updatePage w ident updates = Inr (Some ?r, w1)" by blast
  from a getPageById_SomeD [of w ident old] have i: "field old ''id'' = Some (JStr ident)"
    by auto
  have "field ?r ''id'' = field (JObj ?m) ''id''" by simp
  with i have 1: "field ?r ''id'' =
      (case fmlookup updates ''id'' of None \<Rightarrow> Some (JStr ident) | Some v \<Rightarrow> Some v)"
    by (simp only: field_merge)
  have "field ?r ''createdAt'' = field (JObj ?m) ''createdAt''" by simp
  then have 2: "field ?r ''createdAt'' =
      (case fmlookup updates ''createdAt'' of None \<Rightarrow> field old ''createdAt'' | Some v \<Rightarrow> Some v)"
    by (simp only: field_merge)
  have 3: "field ?r ''updatedAt'' = Some (JStr (toISOString (shd (clock w))))" by simp
  from u 1 2 3 show "\<exists>r w1. updatePage w ident updates = Inr (Some r, w1) \<and>
         field r ''updatedAt'' = Some (JStr (toISOString (shd (clock w)))) \<and>
         field r ''id'' =
           (case fmlookup updates ''id'' of None \<Rightarrow> Some (JStr ident) | Some v \<Rightarrow> Some v) \<and>
         field r ''createdAt'' =
           (case fmlookup updates ''createdAt'' of
              None \<Rightarrow> field old ''createdAt'' | Some v \<Rightarrow> Some v)"
    by blast
next
  assume a: "getDoctorById w ident = Inr (Some old) \<and> \<not> unwritable w ''doctors.json''"
  let ?r = "JObj (own_props old ++\<^sub>f updates)"
  from a updateDoctor_existing [of w ident old updates] obtain w1 where
    u: "updateDoctor w ident updates = Inr (Some ?r, w1)" by blast
  from a getDoctorById_SomeD [of w ident old] have i: "field old ''id'' = Some (JStr ident)"
    by auto
  then have 1: "field ?r ''id'' =
      (case fmlookup updates ''id'' of None \<Rightarrow> Some (JStr ident) | Some v \<Rightarrow> Some v)"
    by (simp only: field_merge)
  have 2: "field ?r ''updatedAt'' =
      (case fmlookup updates ''updatedAt'' of None \<Rightarrow> field old ''updatedAt'' | Some v \<Rightarrow> Some v)"
    by (simp only: field_merge)
  from u 1 2 show "\<exists>r w1. updateDoctor w ident updates = Inr (Some r, w1) \<and>
         field r ''id'' =
           (case fmlookup updates ''id'' of None \<Rightarrow> Some (JStr ident) | Some v \<Rightarrow> Some v) \<and>
         field r ''updatedAt'' =
           (case fmlookup updates ''updatedAt'' of
              None \<Rightarrow> field old ''updatedAt'' | Some v \<Rightarrow> Some v)"
    by blast
qed

theorem update_stamps_witness:
  "getPageById demo_world ''p1'' = Inr (Some demo_page) \<and>
   \<not> unwritable demo_world ''pages.json'' \<and>
   (\<exists>r w1. updatePage demo_world ''p1'' (fmap_of_list [(''title'', JStr ''Start'')]) = Inr (Some r, w1) \<and>
      field r ''updatedAt'' = Some (JStr ''2023-11-14T22:13:20.000Z'') \<and>
      field r ''id'' = Some (JStr ''p1'') \<and>
      field r ''createdAt'' = Some (JStr ''2023-01-01T00:00:00.000Z'')) \<and>
   getDoctorById demo_world ''d1'' = Inr (Some demo_doctor) \<and>
   \<not> unwritable demo_world ''doctors.json'' \<and>
   (\<exists>r w1. updateDoctor demo_world ''d1'' (fmap_of_list [(''name'', JStr ''Dr. A Jr.'')]) = Inr (Some r, w1) \<and>
      field r ''id'' = Some (JStr ''d1'') \<and>
      field r ''updatedAt'' = None)"
proof -
  have h1: "getPageById demo_world ''p1'' = Inr (Some demo_page)"
    by (simp add: getPageById_def read_defs demo_defs)
  have h2: "\<not> unwritable demo_world ''pages.json''"
    by (simp add: demo_world_def)
  have h3: "getDoctorById demo_world ''d1'' = Inr (Some demo_doctor)"
    by (simp add: getDoctorById_def read_defs demo_defs)
  have h4: "\<not> unwritable demo_world ''doctors.json''"
    by (simp add: demo_world_def)
  have c: "toISOString (shd (clock demo_world)) = ''2023-11-14T22:13:20.000Z''"
    by (simp add: demo_world_def demo_clock_def)
  have f: "field demo_page ''createdAt'' = Some (JStr ''2023-01-01T00:00:00.000Z'')"
    "field demo_doctor ''updatedAt'' = None"
    by (simp_all add: demo_page_def demo_doctor_def)
  from update_stamps [of demo_world "''p1''" demo_page "fmap_of_list [(''title'', JStr ''Start'')]"]
    h1 h2 c f
  have p: "\<exists>r w1. updatePage demo_world ''p1'' (fmap_of_list [(''title'', JStr ''Start'')]) = Inr (Some r, w1) \<and>
      field r ''updatedAt'' = Some (JStr ''2023-11-14T22:13:20.000Z'') \<and>
      field r ''id'' = Some (JStr ''p1'') \<and>
      field r ''createdAt'' = Some (JStr ''2023-01-01T00:00:00.000Z'')"
    by simp
  from update_stamps [of demo_world "''d1''" demo_doctor "fmap_of_list [(''name'', JStr ''Dr. A Jr.'')]"]
    h3 h4 f
  have d: "\<exists>r w1. updateDoctor demo_world ''d1'' (fmap_of_list [(''name'', JStr ''Dr. A Jr.'')]) = Inr (Some r, w1) \<and>
      field r ''id'' = Some (JStr ''d1'') \<and>
      field r ''updatedAt'' = None"
    by simp
  from h1 h2 h3 h4 p d show ?thesis by blast
qed

text \<open>
  A payload that names \<open>id\<close> and \<open>createdAt\<close> overwrites both: the page \<open>p1\<close> comes
  back as \<open>p2\<close> and is no longer found under \<open>p1\<close>.
\<close>

theorem update_overwrites_id_counterexample:
  "field demo_page ''id'' = Some (JStr ''p1'') \<and>
   field demo_page ''createdAt'' = Some (JStr ''2023-01-01T00:00:00.000Z'') \<and>
   getPageById demo_world ''p1'' = Inr (Some demo_page) \<and>
   (case updatePage demo_world ''p1'' id_payload of
      Inl e \<Rightarrow> False
    | Inr (None, w1) \<Rightarrow> False
    | Inr (Some r, w1) \<Rightarrow>
        field r ''id'' = Some (JStr ''p2'') \<and>
        field r ''createdAt'' = Some (JStr ''1999-12-31T00:00:00.000Z'') \<and>
        getPageById w1 ''p1'' = Inr None \<and>
        getPageById w1 ''p2'' = Inr (Some r))"
  by (simp add: updatePage_def getPageById_def read_defs demo_defs id_payload_def
        Date_new_def writeDataFile_def Let_def fmmap_fmupd)

section \<open>Creation\<close>

text \<open>
  Claim C4, as the code has it. On a writable collection of records in which no record
  carries the id that \<open>generateId\<close> is about to give, \<open>createPage\<close> returns a record
  with that id, and \<open>getPageById\<close> on that id right after returns what the file holds of
  it: the record as \<open>JSON.stringify\<close> wrote it. That is the returned record itself, equal
  in every field, when the payload holds nothing that JSON cannot write.
\<close>

theorem create_then_getById:
  assumes "getPages w = Inr (JArr xs)" and "list_all is_record xs"
    and "getPageById w (fst (generateId w)) = Inr None"
    and "\<not> unwritable w ''pages.json''"
  shows "\<exists>r w1. createPage w page = Inr (r, w1) \<and>
           field r ''id'' = Some (JStr (fst (generateId w))) \<and>
           getPageById w1 (fst (generateId w)) = Inr (Some (stringify_parse r)) \<and>
           (stringify_parse (JObj page) = JObj page \<longrightarrow>
              getPageById w1 (fst (generateId w)) = Inr (Some r))"
proof -
  let ?g = "fst (generateId w)"
  from assms(1,3) have fresh: "find_by ''id'' ?g xs = Inr None"
    by (simp add: getPageById_def)
  from createPage_writable [OF assms(1) assms(4), of page] obtain r w1 where
    c: "createPage w page = Inr (r, w1)" and
    r: "r = JObj (fmupd ''updatedAt'' (JStr (toISOString (shd (stl (stl (clock w))))))
                    (fmupd ''createdAt'' (JStr (toISOString (shd (stl (clock w)))))
                    (fmupd ''id'' (JStr ?g) page)))" and
    g: "getPages w1 = Inr (JArr (map stringify_parse xs @ [stringify_parse r]))"
    by blast
  from r have i: "field r ''id'' = Some (JStr ?g)" by simp
  then have "field (stringify_parse r) ''id'' = Some (JStr ?g)"
    by (simp only: field_stringify_parse_eq_JStr)
  moreover from r have "is_record (stringify_parse r)" by simp
  ultimately have "find_by ''id'' ?g [stringify_parse r] = Inr (Some (stringify_parse r))"
    by (simp add: get_prop_record)
  moreover from assms(2) fresh have "find_by ''id'' ?g (map stringify_parse xs) = Inr None"
    by (rule find_by_None_stringify_parse)
  ultimately have
    "find_by ''id'' ?g (map stringify_parse xs @ [stringify_parse r]) = Inr (Some (stringify_parse r))"
    by (simp only: find_by_append_fresh)
  with g have stored: "getPageById w1 ?g = Inr (Some (stringify_parse r))"
    by (simp add: getPageById_def)
  have "stringify_parse r = r" if "stringify_parse (JObj page) = JObj page"
    using that r by (simp add: fmmap_fmupd)
  with c i stored show ?thesis by auto
qed

theorem create_then_getById_witness:
  "fst (generateId demo_world) = ''loyw3v284fzyo82mvyr'' \<and>
   getPages demo_world = Inr (JArr [demo_page]) \<and>
   list_all is_record [demo_page] \<and>
   getPageById demo_world ''loyw3v284fzyo82mvyr'' = Inr None \<and>
   \<not> unwritable demo_world ''pages.json'' \<and>
   stringify_parse (JObj (fmap_of_list [(''title'', JStr ''New'')])) =
     JObj (fmap_of_list [(''title'', JStr ''New'')]) \<and>
   (\<exists>r w1. createPage demo_world (fmap_of_list [(''title'', JStr ''New'')]) = Inr (r, w1) \<and>
      field r ''id'' = Some (JStr ''loyw3v284fzyo82mvyr'') \<and>
      getPageById w1 ''loyw3v284fzyo82mvyr'' = Inr (Some r))"
proof -
  have g: "fst (generateId demo_world) = ''loyw3v284fzyo82mvyr''"
    by (simp add: generateId_fst demo_world_def demo_clock_def base36_example)
  have h1: "getPages demo_world = Inr (JArr [demo_page])"
    by (simp add: read_defs demo_world_def demo_files_def)
  have h2: "list_all is_record [demo_page]"
    by (simp add: demo_page_def)
  have "getPageById demo_world ''loyw3v284fzyo82mvyr'' = Inr None"
    by (simp add: getPageById_def read_defs demo_defs)
  then have h3: "getPageById demo_world (fst (generateId demo_world)) = Inr None"
    by (simp only: g)
  have h4: "\<not> unwritable demo_world ''pages.json''"
    by (simp add: demo_world_def)
  have h5: "stringify_parse (JObj (fmap_of_list [(''title'', JStr ''New'')])) =
     JObj (fmap_of_list [(''title'', JStr ''New'')])"
    by (simp add: fmmap_fmupd)
  from create_then_getById [OF h1 h2 h3 h4, of "fmap_of_list [(''title'', JStr ''New'')]"]
    g h1 h2 h3 h4 h5
  show ?thesis by auto
qed

text \<open>
  The round trip fails on a payload that holds a number JSON cannot write: the record
  returned has the order \<open>NaN\<close>, the record read back has the order \<open>null\<close>. The
  generated id is carried by no stored record here.
\<close>

theorem create_then_getById_counterexample:
  "getPageById demo_world ''loyw3v284fzyo82mvyr'' = Inr None \<and>
   (case createPage demo_world nan_payload of
      Inl e \<Rightarrow> False
    | Inr (r, w1) \<Rightarrow>
        field r ''id'' = Some (JStr ''loyw3v284fzyo82mvyr'') \<and>
        (case field r ''components'' of
           Some (JArr [c]) \<Rightarrow> field c ''order'' = Some JNaN
         | _ \<Rightarrow> False) \<and>
        (case getPageById w1 ''loyw3v284fzyo82mvyr'' of
           Inr (Some s) \<Rightarrow>
             (case field s ''components'' of
                Some (JArr [c]) \<Rightarrow> field c ''order'' = Some JNull
              | _ \<Rightarrow> False)
         | _ \<Rightarrow> False))"
  by (simp add: createPage_def generateId_def Date_new_def Math_random_def writeDataFile_def
        getPageById_def read_defs demo_defs nan_payload_def base36_example Let_def
        fmmap_fmupd)

text \<open>
  Claim C2. The claim does not hold of the code: \<open>generateId\<close> builds the id from the
  clock and \<open>Math.random\<close> alone and \<open>createPage\<close> never compares it with the ids
  stored. When the clock and \<open>Math.random\<close> give the same values to two calls in a row,
  the two records returned and stored share one id. When a stored record already carries
  the id generated, the new record is stored beside it under the same id, and a lookup by
  that id finds the older one.
\<close>

theorem createPage_id_collision:
  "(case createPages frozen_world [fmempty, fmempty] of
      Inr ([r1, r2], w1) \<Rightarrow>
        field r1 ''id'' = Some (JStr ''loyw3v284fzyo82mvyr'') \<and>
        field r2 ''id'' = Some (JStr ''loyw3v284fzyo82mvyr'') \<and>
        getPages w1 = Inr (JArr [r1, r2])
    | _ \<Rightarrow> False) \<and>
   getPages clash_world = Inr (JArr [clash_page]) \<and>
   field clash_page ''id'' = Some (JStr ''loyw3v284fzyo82mvyr'') \<and>
   (case createPage clash_world (fmap_of_list [(''title'', JStr ''New'')]) of
      Inl e \<Rightarrow> False
    | Inr (r, w1) \<Rightarrow>
        field r ''id'' = Some (JStr ''loyw3v284fzyo82mvyr'') \<and>
        field r ''title'' = Some (JStr ''New'') \<and>
        getPages w1 = Inr (JArr [clash_page, r]) \<and>
        getPageById w1 ''loyw3v284fzyo82mvyr'' = Inr (Some clash_page))"
  by (simp add: createPage_def generateId_def Date_new_def Math_random_def writeDataFile_def
        getPageById_def read_defs frozen_world_def clash_world_def clash_page_def demo_defs
        base36_example Let_def fmmap_fmupd)

text \<open>
  Claim C10, as the code has it. On a readable, writable collection \<open>createBlogPost\<close>
  returns a record whose \<open>views\<close> and \<open>likes\<close> are \<open>0\<close> whatever the payload holds,
  whose \<open>publishedDate\<close> is the clock reading taken for it and whose \<open>updatedDate\<close>
  is the next clock reading. The two dates are equal exactly when the two readings render
  equal.
\<close>

theorem createBlogPost_counters:
  assumes "getBlogPosts w = Inr (JArr xs)" and "\<not> unwritable w ''blog-posts.json''"
  shows "\<exists>r w1. createBlogPost w post = Inr (r, w1) \<and>
           field r ''views'' = Some (JNum 0) \<and>
           field r ''likes'' = Some (JNum 0) \<and>
           field r ''publishedDate'' = Some (JStr (toISOString (shd (stl (clock w))))) \<and>
           field r ''updatedDate'' = Some (JStr (toISOString (shd (stl (stl (clock w))))))"
  using assms
  by (simp add: createBlogPost_def generateId_def Date_new_def Math_random_def
        writeDataFile_def Let_def)

theorem createBlogPost_counters_witness:
  "getBlogPosts frozen_posts = Inr (JArr []) \<and>
   \<not> unwritable frozen_posts ''blog-posts.json'' \<and>
   fmlookup post_payload ''views'' = Some (JNum 99) \<and>
   (\<exists>r w1. createBlogPost frozen_posts post_payload = Inr (r, w1) \<and>
      field r ''views'' = Some (JNum 0) \<and>
      field r ''likes'' = Some (JNum 0) \<and>
      field r ''publishedDate'' = Some (JStr ''2023-11-14T22:13:20.000Z'') \<and>
      field r ''updatedDate'' = Some (JStr ''2023-11-14T22:13:20.000Z''))"
proof -
  have h1: "getBlogPosts frozen_posts = Inr (JArr [])"
    by (simp add: read_defs frozen_posts_def frozen_world_def)
  have h2: "\<not> unwritable frozen_posts ''blog-posts.json''"
    by (simp add: frozen_posts_def frozen_world_def)
  have h3: "fmlookup post_payload ''views'' = Some (JNum 99)"
    by (simp add: post_payload_def)
  have c: "toISOString (shd (stl (clock frozen_posts))) = ''2023-11-14T22:13:20.000Z''"
    "toISOString (shd (stl (stl (clock frozen_posts)))) = ''2023-11-14T22:13:20.000Z''"
    by (simp_all add: frozen_posts_def frozen_world_def)
  from createBlogPost_counters [OF h1 h2, of post_payload] h1 h2 h3 c
  show ?thesis by simp
qed

text \<open>
  The two dates differ when the clock advances between the two \<open>new Date()\<close>.
\<close>

theorem createBlogPost_dates_counterexample:
  "(case createBlogPost demo_world post_payload of
      Inl e \<Rightarrow> False
    | Inr (r, w1) \<Rightarrow>
        field r ''publishedDate'' = Some (JStr ''2023-11-14T22:13:20.000Z'') \<and>
        field r ''updatedDate'' = Some (JStr ''2023-11-14T22:13:20.001Z'') \<and>
        field r ''publishedDate'' \<noteq> field r ''updatedDate'')"
  by (simp add: createBlogPost_def generateId_def Date_new_def Math_random_def
        writeDataFile_def read_defs demo_defs post_payload_def Let_def)

section \<open>The aggregate\<close>

text \<open>
  Claim C5. When the read of one of the five files of the aggregate fails, \<open>getAllData\<close>
  fails: it returns the read failure of a file that cannot be read, and no aggregate.
\<close>

theorem getAllData_fail_fast:
  assumes "readDataFile w filename = Inl e"
    and "filename \<in> set [''pages.json'', ''blog-posts.json'', ''doctors.json'',
                           ''cases.json'', ''seo-settings.json'']"
  shows "\<exists>f. getAllData w = Inl (ReadFailed f) \<and> files w f = None"
proof -
  from assms(1) have "files w filename = None"
    by (simp add: readDataFile_def split: option.splits)
  with assms(2) show ?thesis
    by (auto simp: getAllData_def read_defs split: option.splits)
qed

theorem getAllData_fail_fast_witness:
  "readDataFile broken_world ''doctors.json'' = Inl (ReadFailed ''doctors.json'') \<and>
   ''doctors.json'' \<in> set [''pages.json'', ''blog-posts.json'', ''doctors.json'',
                           ''cases.json'', ''seo-settings.json''] \<and>
   readDataFile broken_world ''pages.json'' = Inr (JArr [demo_page]) \<and>
   (\<exists>f. getAllData broken_world = Inl (ReadFailed f) \<and> files broken_world f = None)"
proof -
  have h1: "readDataFile broken_world ''doctors.json'' = Inl (ReadFailed ''doctors.json'')"
    by (simp add: readDataFile_def broken_world_def)
  have h2: "''doctors.json'' \<in> set [''pages.json'', ''blog-posts.json'', ''doctors.json'',
                           ''cases.json'', ''seo-settings.json'']"
    by simp
  have h3: "readDataFile broken_world ''pages.json'' = Inr (JArr [demo_page])"
    by (simp add: readDataFile_def broken_world_def demo_world_def demo_files_def)
  from getAllData_fail_fast [OF h1 h2] h1 h2 h3 show ?thesis by blast
qed

text \<open>
  Claim C6, as the code has it. When its five reads succeed, \<open>getAllData\<close> returns an
  aggregate that holds the content of \<open>pages\<close>, \<open>blog-posts\<close>, \<open>doctors\<close>,
  \<open>cases\<close> and \<open>seo-settings\<close>, and nothing under any other name.
\<close>

theorem getAllData_five_collections:
  assumes "getPages w = Inr pages" and "getBlogPosts w = Inr blogPosts"
    and "getDoctors w = Inr doctors" and "getCases w = Inr cases"
    and "getSEOSettings w = Inr seoSettings"
  shows "\<exists>agg. getAllData w = Inr agg \<and>
           field agg ''pages'' = Some pages \<and>
           field agg ''blog-posts'' = Some blogPosts \<and>
           field agg ''doctors'' = Some doctors \<and>
           field agg ''cases'' = Some cases \<and>
           field agg ''seo-settings'' = Some seoSettings \<and>
           (\<forall>k. k \<notin> set [''pages'', ''blog-posts'', ''doctors'', ''cases'', ''seo-settings'']
                 \<longrightarrow> field agg k = None)"
  using assms by (simp add: getAllData_def)

theorem getAllData_five_collections_witness:
  "getPages demo_world = Inr (JArr [demo_page]) \<and>
   getBlogPosts demo_world = Inr (JArr []) \<and>
   getDoctors demo_world = Inr (JArr [demo_doctor]) \<and>
   getCases demo_world = Inr (JArr []) \<and>
   getSEOSettings demo_world =
     Inr (JObj (fmap_of_list [(''id'', JStr ''seo''), (''siteName'', JStr ''Clinic'')])) \<and>
   (\<exists>agg. getAllData demo_world = Inr agg \<and>
      field agg ''pages'' = Some (JArr [demo_page]) \<and>
      field agg ''doctors'' = Some (JArr [demo_doctor]) \<and>
      field agg ''testimonials'' = None)"
proof -
  have h: "getPages demo_world = Inr (JArr [demo_page])"
    "getBlogPosts demo_world = Inr (JArr [])"
    "getDoctors demo_world = Inr (JArr [demo_doctor])"
    "getCases demo_world = Inr (JArr [])"
    "getSEOSettings demo_world =
       Inr (JObj (fmap_of_list [(''id'', JStr ''seo''), (''siteName'', JStr ''Clinic'')]))"
    by (simp_all add: read_defs demo_world_def demo_files_def)
  from getAllData_five_collections [OF h] obtain agg where
    a: "getAllData demo_world = Inr agg" "field agg ''pages'' = Some (JArr [demo_page])"
      "field agg ''doctors'' = Some (JArr [demo_doctor])"
    and n: "\<And>k. k \<notin> set [''pages'', ''blog-posts'', ''doctors'', ''cases'', ''seo-settings'']
                 \<Longrightarrow> field agg k = None"
    by blast
  have "field agg ''testimonials'' = None"
    by (rule n) simp
  with a h show ?thesis by blast
qed

text \<open>
  The other collections the routes serve are not part of the aggregate: \<open>services\<close> is
  absent although its file is there and readable.
\<close>

theorem getAllData_services_counterexample:
  "readDataFile demo_world ''services.json'' =
     Inr (JArr [JObj (fmap_of_list [(''id'', JStr ''s1''), (''name'', JStr ''Consultation'')])]) \<and>
   (case getAllData demo_world of
      Inl e \<Rightarrow> False
    | Inr agg \<Rightarrow> field agg ''services'' = None \<and> field agg ''pages'' = Some (JArr [demo_page]))"
  by (simp add: getAllData_def read_defs demo_world_def demo_files_def)

end
